theory Spec2Isabelle
  imports Complex_Main "HOL-Library.Log_Nat"
begin

section \<open>Values of the host language\<close>

text \<open>
  A JavaScript \<open>number\<close> is an IEEE-754 double: a finite double is kept as the rational
  it denotes, next to the three special values. The sign of zero is not kept (\<open>JSON\<close>
  writes \<open>-0\<close> as \<open>0\<close>, and \<open>x || 0\<close> maps both zeros to \<open>0\<close>).
\<close>

datatype jsnum = NaN | PosInf | NegInf | Fin rat

text \<open>Values typed \<open>any\<close> in the source: JSON data.\<close>

datatype json =
    JNull
  | JBool bool
  | JNum jsnum
  | JStr string
  | JArr "json list"
  | JObj "(string \<times> json) list"

section \<open>Requests and their bodies\<close>

text \<open>\<open>interface CaseFormData\<close> of the new-case form.\<close>

record case_form_data =
  title :: string
  description :: string
  plaintiff_id :: string
  law_firm_id :: string
  case_type :: string
  incident_date :: string
  incident_location :: string
  incident_description :: string
  estimated_case_value :: jsnum
  funding_amount_requested :: jsnum
  priority :: string
  notes_text :: string

text \<open>A browser \<open>File\<close>, and the entries of a \<open>FormData\<close> in the order they were appended.\<close>

record upload_file =
  file_name :: string
  file_size :: nat

datatype form_value = FileEntry upload_file | TextEntry string

type_synonym form_data = "(string \<times> form_value) list"

text \<open>\<open>interface SettingUpdateRequest\<close>.\<close>

record setting_update_request =
  su_value :: json
  change_reason :: "string option"

datatype payload =
    NoBody
  | CaseBody case_form_data
  | FormBody form_data
  | SettingBody setting_update_request

datatype http_method = GET | POST | PUT | DELETE

text \<open>
  A request as the caller hands it to the client: method, URL below the base path, the
  \<open>params\<close> and \<open>headers\<close> of the request configuration, and the body.
\<close>

record request =
  req_method :: http_method
  req_url :: string
  req_params :: "(string \<times> json) list"
  req_headers :: "(string \<times> string) list"
  req_body :: payload

text \<open>
  What a failed request carries: \<open>error.response\<close> is absent when no HTTP response
  arrived (network failure, the 30 s timeout); otherwise it has the status and, in
  \<open>data.detail\<close>, the message of the backend when there is one.
\<close>

record error_response =
  err_status :: int
  err_detail :: "string option"

record axios_error =
  response :: "error_response option"

record 'd http_response =
  resp_status :: int
  resp_data :: 'd

section \<open>The browser around the application\<close>

text \<open>
  Everything the code does to its surroundings is written to a trace, in order; the
  stored values it reads and writes are fields of the world.
\<close>

datatype event =
    ToastError string
  | ToastSuccess string
  | HttpRequest request
  | HttpFulfilled request
  | HttpRejected request
  | Console string
  | SocketOpened string
  | Invalidate string
  | Refetch string

record world =
  localStorage :: "string \<rightharpoonup> string"
  default_headers :: "string \<rightharpoonup> string"
  location_href :: string
  trace :: "event list"

definition emit :: "event \<Rightarrow> world \<Rightarrow> world" where
  "emit ev w = w\<lparr>trace := trace w @ [ev]\<rparr>"

fun is_toast :: "event \<Rightarrow> bool" where
  "is_toast (ToastError m) = True"
| "is_toast (ToastSuccess m) = True"
| "is_toast ev = False"

fun is_request :: "event \<Rightarrow> bool" where
  "is_request (HttpRequest q) = True"
| "is_request ev = False"

definition toasts :: "world \<Rightarrow> event list" where
  "toasts w = filter is_toast (trace w)"

definition requests :: "world \<Rightarrow> event list" where
  "requests w = filter is_request (trace w)"

section \<open>The HTTP client: \<open>services/api.ts\<close>\<close>

text \<open>\<open>error.response?.status\<close> and \<open>error.response?.data?.detail\<close>.\<close>

definition status_of :: "axios_error \<Rightarrow> int option" where
  "status_of error = map_option err_status (response error)"

definition detail_of :: "axios_error \<Rightarrow> string option" where
  "detail_of error = Option.bind (response error) err_detail"

text \<open>
  The rejection handler of the response interceptor: first what it does to the browser,
  then the handler itself, which always rejects with the error it was given
  (\<open>return Promise.reject(error)\<close>). Comparing \<open>undefined\<close> with \<open>401\<close> or \<open>500\<close> is
  false, and an absent or empty \<open>detail\<close> is falsy.
\<close>

definition onRejected_effects :: "axios_error \<Rightarrow> world \<Rightarrow> world" where
  "onRejected_effects error w =
     (if status_of error = Some 401 then
        w\<lparr>localStorage := (localStorage w)(''auth_token'' := None),
          default_headers := (default_headers w)(''Authorization'' := None),
          location_href := ''/login''\<rparr>
      else if (case status_of error of Some s \<Rightarrow> s \<ge> 500 | None \<Rightarrow> False) then
        emit (ToastError ''Server error. Please try again later.'') w
      else
        (case detail_of error of
           Some d \<Rightarrow>
             if d \<noteq> [] then emit (ToastError d) w
             else emit (ToastError ''An unexpected error occurred'') w
         | None \<Rightarrow> emit (ToastError ''An unexpected error occurred'') w))"

definition onRejected :: "axios_error \<Rightarrow> world \<Rightarrow> (axios_error + 'a) \<times> world" where
  "onRejected error w = (Inl error, onRejected_effects error w)"

text \<open>The fulfilment handler: \<open>(response) => response\<close>.\<close>

definition onFulfilled :: "'d http_response \<Rightarrow> world \<Rightarrow> (axios_error + 'd http_response) \<times> world" where
  "onFulfilled resp w = (Inr resp, w)"

text \<open>
  One request through the shared client. The network is a parameter: given what has
  happened so far and the request, it answers with a response or fails.
\<close>

type_synonym 'd network = "event list \<Rightarrow> request \<Rightarrow> axios_error + 'd http_response"

definition api_request :: "'d network \<Rightarrow> request \<Rightarrow> world \<Rightarrow> (axios_error + 'd http_response) \<times> world" where
  "api_request net req w =
     (let w1 = emit (HttpRequest req) w in
      case net (trace w) req of
        Inr resp \<Rightarrow> onFulfilled resp (emit (HttpFulfilled req) w1)
      | Inl error \<Rightarrow> onRejected error (emit (HttpRejected req) w1))"

section \<open>Queries of the list pages\<close>



subsection \<open>\<open>pages/CasesPage.tsx\<close>\<close>

text \<open>The filter state of the page; \<open>page\<close> and \<open>limit\<close> hold whole numbers.\<close>

record cases_filters =
  f_status :: string
  f_case_type :: string
  f_search :: string
  f_page :: int
  f_limit :: int

definition initial_cases_filters :: cases_filters where
  "initial_cases_filters =
     \<lparr>f_status = [], f_case_type = [], f_search = [], f_page = 1, f_limit = 20\<rparr>"

text \<open>What the backend sends for the list: the rows of the page and the total.\<close>

record 'c cases_data =
  cases :: "'c list"
  total :: int

text \<open>\<open>api.get('/cases', { params: filters })\<close>.\<close>

definition cases_request :: "cases_filters \<Rightarrow> request" where
  "cases_request filters =
     \<lparr>req_method = GET, req_url = ''/cases'',
      req_params =
        [(''status'', JStr (f_status filters)),
         (''case_type'', JStr (f_case_type filters)),
         (''search'', JStr (f_search filters)),
         (''page'', JNum (Fin (of_int (f_page filters)))),
         (''limit'', JNum (Fin (of_int (f_limit filters))))],
      req_headers = [], req_body = NoBody\<rparr>"


text \<open>The key of the page's query: \<open>['cases', filters]\<close>.\<close>

definition cases_query_key :: "cases_filters \<Rightarrow> string \<times> cases_filters" where
  "cases_query_key filters = (''cases'', filters)"

text \<open>
  \<open>handleFilterChange\<close> receives an object typed \<open>any\<close> and spreads it over the previous
  state: a key that is present overrides, and \<open>page: 1\<close> comes last.
\<close>

record cases_filter_update =
  u_status :: "string option"
  u_case_type :: "string option"
  u_search :: "string option"
  u_page :: "int option"
  u_limit :: "int option"

definition spread :: "'a \<Rightarrow> 'a option \<Rightarrow> 'a" where
  "spread old new = (case new of Some v \<Rightarrow> v | None \<Rightarrow> old)"

definition handleFilterChange :: "cases_filter_update \<Rightarrow> cases_filters \<Rightarrow> cases_filters" where
  "handleFilterChange newFilters prev =
     \<lparr>f_status = spread (f_status prev) (u_status newFilters),
      f_case_type = spread (f_case_type prev) (u_case_type newFilters),
      f_search = spread (f_search prev) (u_search newFilters),
      f_page = 1,
      f_limit = spread (f_limit prev) (u_limit newFilters)\<rparr>"

text \<open>
  \<open>components/cases/CaseFilters.tsx\<close>: the three controls call \<open>onFilterChange\<close> with
  \<open>{ search: v }\<close>, \<open>{ status: v }\<close> and \<open>{ case_type: v }\<close>.
\<close>

definition no_update :: cases_filter_update where
  "no_update = \<lparr>u_status = None, u_case_type = None, u_search = None, u_page = None, u_limit = None\<rparr>"

definition onSearchChange :: "string \<Rightarrow> cases_filters \<Rightarrow> cases_filters" where
  "onSearchChange v = handleFilterChange (no_update\<lparr>u_search := Some v\<rparr>)"

definition onStatusChange :: "string \<Rightarrow> cases_filters \<Rightarrow> cases_filters" where
  "onStatusChange v = handleFilterChange (no_update\<lparr>u_status := Some v\<rparr>)"

definition onCaseTypeChange :: "string \<Rightarrow> cases_filters \<Rightarrow> cases_filters" where
  "onCaseTypeChange v = handleFilterChange (no_update\<lparr>u_case_type := Some v\<rparr>)"

subsection \<open>\<open>pages/DocumentsPage.tsx\<close> and \<open>components/documents/DocumentList.tsx\<close>\<close>

record documents_filters =
  d_search :: string
  d_document_type :: string
  d_status :: string
  d_page :: int
  d_limit :: int

definition initial_documents_filters :: documents_filters where
  "initial_documents_filters =
     \<lparr>d_search = [], d_document_type = [], d_status = [], d_page = 1, d_limit = 20\<rparr>"

text \<open>The key of the page's query: \<open>['documents', filters]\<close>.\<close>

definition documents_query_key :: "documents_filters \<Rightarrow> string \<times> documents_filters" where
  "documents_query_key filters = (''documents'', filters)"

text \<open>
  The page passes \<open>setFilters\<close> as \<open>onFilterChange\<close>, so the object a control of the list
  builds from the current filters is the next filter state.
\<close>

definition documentSearchChange :: "string \<Rightarrow> documents_filters \<Rightarrow> documents_filters" where
  "documentSearchChange v filters = filters\<lparr>d_search := v, d_page := 1\<rparr>"

definition documentTypeChange :: "string \<Rightarrow> documents_filters \<Rightarrow> documents_filters" where
  "documentTypeChange v filters = filters\<lparr>d_document_type := v, d_page := 1\<rparr>"

definition documentStatusChange :: "string \<Rightarrow> documents_filters \<Rightarrow> documents_filters" where
  "documentStatusChange v filters = filters\<lparr>d_status := v, d_page := 1\<rparr>"

section \<open>Numbers and strings of the host language\<close>

text \<open>
  Rounding a rational to the nearest double, ties to even: \<open>ilog2\<close> is the binary
  exponent \<open>\<lfloor>log\<^sub>2 q\<rfloor>\<close> of a positive rational, a double has 53 significant bits, the
  smallest exponent is \<open>-1022\<close> (below it the spacing stays \<open>2\<^sup>-\<^sup>1\<^sup>0\<^sup>7\<^sup>4\<close>), and a result of
  magnitude \<open>2\<^sup>1\<^sup>0\<^sup>2\<^sup>4\<close> or more is an infinity.
\<close>

definition ilog2 :: "rat \<Rightarrow> int" where
  "ilog2 q = (if 1 \<le> q then bitlen \<lfloor>q\<rfloor> - 1 else - bitlen (\<lceil>1 / q\<rceil> - 1))"

definition nearest_even :: "rat \<Rightarrow> int" where
  "nearest_even q =
     (let f = \<lfloor>q\<rfloor>; d = q - of_int f
      in if d < 1 / 2 then f else if 1 / 2 < d then f + 1 else if even f then f else f + 1)"

definition round_double :: "rat \<Rightarrow> jsnum" where
  "round_double q =
     (if q = 0 then Fin 0
      else
        let e = max (ilog2 \<bar>q\<bar>) (- 1022);
            ulp = 2 powi (e - 52);
            r = of_int (nearest_even (q / ulp)) * ulp
        in if 2 ^ 1024 \<le> r then PosInf else if r \<le> - (2 ^ 1024) then NegInf else Fin r)"

text \<open>The operator \<open>*\<close> on numbers.\<close>

fun js_times :: "jsnum \<Rightarrow> jsnum \<Rightarrow> jsnum" where
  "js_times (Fin a) (Fin b) = round_double (a * b)"
| "js_times NaN y = NaN"
| "js_times x NaN = NaN"
| "js_times PosInf (Fin b) = (if b = 0 then NaN else if 0 < b then PosInf else NegInf)"
| "js_times NegInf (Fin b) = (if b = 0 then NaN else if 0 < b then NegInf else PosInf)"
| "js_times (Fin a) PosInf = (if a = 0 then NaN else if 0 < a then PosInf else NegInf)"
| "js_times (Fin a) NegInf = (if a = 0 then NaN else if 0 < a then NegInf else PosInf)"
| "js_times PosInf PosInf = PosInf"
| "js_times NegInf NegInf = PosInf"
| "js_times PosInf NegInf = NegInf"
| "js_times NegInf PosInf = NegInf"

text \<open>\<open>x || 0\<close> on a number: \<open>NaN\<close> and zero are falsy.\<close>

definition or_zero :: "jsnum \<Rightarrow> jsnum" where
  "or_zero x = (if x = NaN \<or> x = Fin 0 then Fin 0 else x)"

text \<open>
  The builtin \<open>parseFloat\<close>: leading white space is skipped, then the longest prefix that
  is a decimal literal (sign, \<open>Infinity\<close> or digits with an optional fraction and an
  optional exponent) is read and rounded to a double; when there is no such prefix the
  result is \<open>NaN\<close>. Characters are bytes here, so the white space is that of ASCII.
\<close>

definition digit_of :: "char \<Rightarrow> nat option" where
  "digit_of c =
     map_of [(CHR ''0'', 0), (CHR ''1'', 1), (CHR ''2'', 2), (CHR ''3'', 3), (CHR ''4'', 4),
             (CHR ''5'', 5), (CHR ''6'', 6), (CHR ''7'', 7), (CHR ''8'', 8), (CHR ''9'', 9)] c"

definition is_digit :: "char \<Rightarrow> bool" where
  "is_digit c = (digit_of c \<noteq> None)"

definition is_space :: "char \<Rightarrow> bool" where
  "is_space c = (c \<in> set [CHR '' '', CHR 0x09, CHR 0x0A, CHR 0x0B, CHR 0x0C, CHR 0x0D])"

definition digits_value :: "string \<Rightarrow> nat" where
  "digits_value ds = foldl (\<lambda>acc c. 10 * acc + (case digit_of c of Some d \<Rightarrow> d | None \<Rightarrow> 0)) 0 ds"

text \<open>The exponent part, read only when a digit follows the indicator and its sign.\<close>

definition exponent_part :: "string \<Rightarrow> int" where
  "exponent_part s =
     (case s of
        [] \<Rightarrow> 0
      | c # r \<Rightarrow>
          if c = CHR ''e'' \<or> c = CHR ''E'' then
            (case r of
               [] \<Rightarrow> 0
             | d # r' \<Rightarrow>
                 if d = CHR ''-'' then
                   (if takeWhile is_digit r' = [] then 0 else - int (digits_value (takeWhile is_digit r')))
                 else if d = CHR ''+'' then int (digits_value (takeWhile is_digit r'))
                 else int (digits_value (takeWhile is_digit r)))
          else 0)"

definition parseFloat :: "string \<Rightarrow> jsnum" where
  "parseFloat s =
     (let t = dropWhile is_space s;
          negative = (take 1 t = ''-'');
          u = (if take 1 t = ''-'' \<or> take 1 t = ''+'' then drop 1 t else t)
      in if take 8 u = ''Infinity'' then (if negative then NegInf else PosInf)
         else
           let ip = takeWhile is_digit u;
               r1 = dropWhile is_digit u;
               fp = (if take 1 r1 = ''.'' then takeWhile is_digit (drop 1 r1) else []);
               r2 = (if take 1 r1 = ''.'' then dropWhile is_digit (drop 1 r1) else r1)
           in if ip = [] \<and> fp = [] then NaN
              else
                let v = of_nat (digits_value (ip @ fp)) * 10 powi (exponent_part r2 - int (length fp))
                in round_double (if negative then - v else v))"

text \<open>\<open>String.prototype.includes\<close>.\<close>

fun str_includes :: "string \<Rightarrow> string \<Rightarrow> bool" where
  "str_includes [] sub = (sub = [])"
| "str_includes (c # cs) sub = (take (length sub) (c # cs) = sub \<or> str_includes cs sub)"

text \<open>A whole number written in decimal, as a template string does.\<close>

fun show_nat :: "nat \<Rightarrow> string" where
  "show_nat n =
     (if n < 10 then [''0123456789'' ! n]
      else show_nat (n div 10) @ [''0123456789'' ! (n mod 10)])"

definition show_int :: "int \<Rightarrow> string" where
  "show_int i = (if i < 0 then CHR ''-'' # show_nat (nat (- i)) else show_nat (nat i))"

section \<open>The new-case form: \<open>NewCaseForm\<close>\<close>


text \<open>
  \<open>handleChange\<close> writes the field named by the input with a computed key. The value is
  a number for a name that contains \<open>amount\<close> or \<open>value\<close> and the string of the input
  otherwise. The result is \<open>None\<close> when the object would leave \<open>CaseFormData\<close>: a key that
  is not one of its fields, or a value of the other type.
\<close>

datatype field_value = Str string | Num jsnum

definition set_field :: "string \<Rightarrow> field_value \<Rightarrow> case_form_data \<Rightarrow> case_form_data option" where
  "set_field name v prev =
     (case v of
        Str s \<Rightarrow>
          if name = ''title'' then Some (prev\<lparr>title := s\<rparr>)
          else if name = ''description'' then Some (prev\<lparr>description := s\<rparr>)
          else if name = ''plaintiff_id'' then Some (prev\<lparr>plaintiff_id := s\<rparr>)
          else if name = ''law_firm_id'' then Some (prev\<lparr>law_firm_id := s\<rparr>)
          else if name = ''case_type'' then Some (prev\<lparr>case_type := s\<rparr>)
          else if name = ''incident_date'' then Some (prev\<lparr>incident_date := s\<rparr>)
          else if name = ''incident_location'' then Some (prev\<lparr>incident_location := s\<rparr>)
          else if name = ''incident_description'' then Some (prev\<lparr>incident_description := s\<rparr>)
          else if name = ''priority'' then Some (prev\<lparr>priority := s\<rparr>)
          else if name = ''notes'' then Some (prev\<lparr>notes_text := s\<rparr>)
          else None
      | Num x \<Rightarrow>
          if name = ''estimated_case_value'' then Some (prev\<lparr>estimated_case_value := x\<rparr>)
          else if name = ''funding_amount_requested'' then Some (prev\<lparr>funding_amount_requested := x\<rparr>)
          else None)"

definition handleChange :: "string \<Rightarrow> string \<Rightarrow> case_form_data \<Rightarrow> case_form_data option" where
  "handleChange name val prev =
     set_field name
       (if str_includes name ''amount'' \<or> str_includes name ''value''
        then Num (or_zero (parseFloat val)) else Str val)
       prev"

text \<open>The mutation function: \<open>api.post('/cases', { ...data, ... * 100, ... * 100 })\<close>.\<close>

definition createCase_body :: "case_form_data \<Rightarrow> case_form_data" where
  "createCase_body data =
     data\<lparr>estimated_case_value := js_times (estimated_case_value data) (Fin 100),
          funding_amount_requested := js_times (funding_amount_requested data) (Fin 100)\<rparr>"

definition createCase_request :: "case_form_data \<Rightarrow> request" where
  "createCase_request data =
     \<lparr>req_method = POST, req_url = ''/cases'', req_params = [], req_headers = [],
      req_body = CaseBody (createCase_body data)\<rparr>"

text \<open>
  \<open>createCaseMutation.mutate\<close> with its \<open>onSuccess\<close> and \<open>onError\<close> handlers; the
  optional \<open>onSuccess\<close> property of the form is a parameter.
\<close>

definition createCaseMutation :: "'d network \<Rightarrow> (world \<Rightarrow> world) option \<Rightarrow> case_form_data \<Rightarrow> world \<Rightarrow> world" where
  "createCaseMutation net onSuccess data w =
     (case api_request net (createCase_request data) w of
        (Inr resp, w') \<Rightarrow>
          (case onSuccess of None \<Rightarrow> (\<lambda>x. x) | Some f \<Rightarrow> f)
            (emit (Console ''Case created:'')
              (emit (ToastSuccess ''Case created successfully! AI agents are now processing this case.'')
                (emit (Invalidate ''dashboard-stats'') (emit (Invalidate ''cases'') w'))))
      | (Inl error, w') \<Rightarrow> emit (Console ''Failed to create case:'') w')"

definition handleSubmit :: "'d network \<Rightarrow> (world \<Rightarrow> world) option \<Rightarrow> case_form_data \<Rightarrow> world \<Rightarrow> world" where
  "handleSubmit net onSuccess formData w =
     (if title formData = [] \<or> plaintiff_id formData = [] \<or> law_firm_id formData = [] then
        emit (ToastError ''Please fill in all required fields'') w
      else createCaseMutation net onSuccess formData w)"

section \<open>Document upload: \<open>DocumentUpload\<close> and \<open>DocumentsPage\<close>\<close>

record upload_state =
  files :: "upload_file list"
  isUploading :: bool
  caseId :: string

text \<open>The \<open>FormData\<close> built for one file and the request that carries it.\<close>

definition upload_form :: "string \<Rightarrow> upload_file \<Rightarrow> form_data" where
  "upload_form cid file =
     (''file'', FileEntry file) # (if cid \<noteq> [] then [(''case_id'', TextEntry cid)] else [])"

definition upload_request :: "string \<Rightarrow> upload_file \<Rightarrow> request" where
  "upload_request cid file =
     \<lparr>req_method = POST, req_url = ''/documents/upload'', req_params = [],
      req_headers = [(''Content-Type'', ''multipart/form-data'')],
      req_body = FormBody (upload_form cid file)\<rparr>"

text \<open>
  The loop \<open>for (const file of files) { ... await api.post(...) }\<close>: the next request is
  made when the previous one has been answered, and the first rejection leaves the loop.
\<close>

fun upload_each :: "'d network \<Rightarrow> string \<Rightarrow> upload_file list \<Rightarrow> world \<Rightarrow> (axios_error + unit) \<times> world" where
  "upload_each net cid [] w = (Inr (), w)"
| "upload_each net cid (file # rest) w =
     (case api_request net (upload_request cid file) w of
        (Inl error, w') \<Rightarrow> (Inl error, w')
      | (Inr resp, w') \<Rightarrow> upload_each net cid rest w')"

definition handleUpload :: "'d network \<Rightarrow> (world \<Rightarrow> world) \<Rightarrow> upload_state \<Rightarrow> world \<Rightarrow> upload_state \<times> world" where
  "handleUpload net onUploadSuccess st w =
     (if length (files st) = 0 then (st, emit (ToastError ''Please select files to upload'') w)
      else
        case upload_each net (caseId st) (files st) w of
          (Inr u, w') \<Rightarrow>
            (st\<lparr>files := [], caseId := [], isUploading := False\<rparr>,
             onUploadSuccess
               (emit (ToastSuccess (show_nat (length (files st)) @ '' document(s) uploaded successfully'')) w'))
        | (Inl error, w') \<Rightarrow> (st\<lparr>isUploading := False\<rparr>, emit (Console ''Upload failed:'') w'))"

text \<open>\<open>handleUploadSuccess\<close> of the page refetches the query of the document list.\<close>

definition handleUploadSuccess :: "world \<Rightarrow> world" where
  "handleUploadSuccess w = emit (Refetch ''documents'') w"

text \<open>The refetches of a query recorded in the trace.\<close>

fun is_refetch :: "event \<Rightarrow> bool" where
  "is_refetch (Refetch k) = True"
| "is_refetch ev = False"

definition refetches :: "world \<Rightarrow> event list" where
  "refetches w = filter is_refetch (trace w)"

section \<open>The realtime channel\<close>

subsection \<open>The service on the browser's \<open>WebSocket\<close>\<close>

text \<open>
  The fields of the class: \<open>ws\<close> is absent or a socket with its \<open>readyState\<close>
  (\<open>WebSocket.OPEN\<close> is 1), the listeners are kept per event name (a callback is named
  by a number), and the reconnect bookkeeping.
\<close>

record ws_service =
  ws_readyState :: "nat option"
  eventListeners :: "string \<Rightarrow> nat list"
  reconnectAttempts :: nat
  maxReconnectAttempts :: nat
  reconnectDelay :: nat

definition WebSocket_OPEN :: nat where
  "WebSocket_OPEN = 1"

text \<open>
  \<open>connect\<close>: every path returns before the socket is made; the code after the last
  \<open>return\<close> is never reached. An absent or empty token is falsy.
\<close>

definition connect :: "ws_service \<Rightarrow> world \<Rightarrow> ws_service \<times> world" where
  "connect svc w =
     (if ws_readyState svc = Some WebSocket_OPEN then (svc, w)
      else
        case localStorage w ''auth_token'' of
          None \<Rightarrow>
            (svc, emit (Console ''No auth token found for WebSocket connection - skipping WebSocket'') w)
        | Some token \<Rightarrow>
            if token = [] then
              (svc, emit (Console ''No auth token found for WebSocket connection - skipping WebSocket'') w)
            else (svc, emit (Console ''WebSocket disabled for simple backend'') w))"

subsection \<open>The service on socket.io: \<open>frontend/src/services/websocket.ts\<close>\<close>

text \<open>
  The socket that \<open>io('/', { auth: { token }, transports: ['websocket'] })\<close> returns: it
  starts to connect when it is made, and the service registers three handlers on it.
\<close>

record io_socket =
  sock_connected :: bool
  sock_auth_token :: "string option"
  sock_transports :: "string list"
  sock_handlers :: "string list"

definition io_connect :: "io_socket option \<Rightarrow> world \<Rightarrow> io_socket option \<times> world" where
  "io_connect socket w =
     (if (case socket of Some s \<Rightarrow> sock_connected s | None \<Rightarrow> False) then (socket, w)
      else
        (Some \<lparr>sock_connected = False,
               sock_auth_token = localStorage w ''auth_token'',
               sock_transports = [''websocket''],
               sock_handlers = [''connect'', ''disconnect'', ''connect_error'']\<rparr>,
         emit (SocketOpened ''/'') w))"

text \<open>What counts as traffic in the trace: a request or a socket being opened.\<close>

fun is_traffic :: "event \<Rightarrow> bool" where
  "is_traffic (HttpRequest q) = True"
| "is_traffic (SocketOpened u) = True"
| "is_traffic ev = False"

section \<open>The settings service: \<open>services/settingsService.ts\<close>\<close>

text \<open>\<open>interface Setting\<close> and \<open>interface SettingsCategory\<close>; an optional field is an option.\<close>

record setting =
  st_id :: int
  st_category_id :: int
  st_key :: string
  st_display_name :: string
  st_description :: "string option"
  st_data_type :: string
  st_default_value :: "string option"
  st_current_value :: "string option"
  st_value :: json
  st_validation_rules :: "(string \<times> json) list option"
  st_ui_component :: "string option"
  st_ui_options :: "(string \<times> json) list option"
  st_is_sensitive :: bool
  st_is_readonly :: bool
  st_is_required :: bool
  st_requires_restart :: bool
  st_sort_order :: int
  st_is_active :: bool

record settings_category =
  cat_id :: int
  cat_name :: string
  cat_display_name :: string
  cat_description :: "string option"
  cat_icon :: "string option"
  cat_sort_order :: int
  cat_is_active :: bool
  cat_settings :: "setting list"

definition baseUrl :: string where
  "baseUrl = ''/api/v1/settings''"

definition log_levels :: json where
  "log_levels = JArr [JStr ''DEBUG'', JStr ''INFO'', JStr ''WARNING'', JStr ''ERROR'', JStr ''CRITICAL'']"

definition getMockCategories :: "settings_category list" where
  "getMockCategories =
     [\<lparr>cat_id = 1, cat_name = ''system'', cat_display_name = ''System Settings'',
       cat_description = Some ''Core system configuration and performance settings'',
       cat_icon = Some ''cog'', cat_sort_order = 1, cat_is_active = True,
       cat_settings =
         [\<lparr>st_id = 1, st_category_id = 1, st_key = ''log_level'', st_display_name = ''Log Level'',
           st_description = Some ''Minimum log level for system logging'',
           st_data_type = ''select'', st_default_value = Some ''INFO'',
           st_current_value = Some ''INFO'', st_value = JStr ''INFO'',
           st_validation_rules = Some [(''options'', log_levels)],
           st_ui_component = Some ''select'', st_ui_options = Some [(''options'', log_levels)],
           st_is_sensitive = False, st_is_readonly = False, st_is_required = True,
           st_requires_restart = False, st_sort_order = 1, st_is_active = True\<rparr>,
          \<lparr>st_id = 2, st_category_id = 1, st_key = ''enable_metrics'',
           st_display_name = ''Enable Metrics Collection'',
           st_description = Some ''Collect system performance metrics'',
           st_data_type = ''boolean'', st_default_value = Some ''true'',
           st_current_value = Some ''true'', st_value = JBool True,
           st_validation_rules = Some [],
           st_ui_component = Some ''checkbox'', st_ui_options = Some [],
           st_is_sensitive = False, st_is_readonly = False, st_is_required = False,
           st_requires_restart = False, st_sort_order = 2, st_is_active = True\<rparr>]\<rparr>,
      \<lparr>cat_id = 2, cat_name = ''agents'', cat_display_name = ''Agent Management'',
       cat_description = Some ''AI agent configuration and control settings'',
       cat_icon = Some ''beaker'', cat_sort_order = 2, cat_is_active = True,
       cat_settings =
         [\<lparr>st_id = 3, st_category_id = 2, st_key = ''agent_health_check_interval'',
           st_display_name = ''Agent Health Check Interval (seconds)'',
           st_description = Some ''How often to check agent health status'',
           st_data_type = ''integer'', st_default_value = Some ''30'',
           st_current_value = Some ''30'', st_value = JNum (Fin 30),
           st_validation_rules = Some [(''min'', JNum (Fin 10)), (''max'', JNum (Fin 300))],
           st_ui_component = Some ''input'', st_ui_options = Some [],
           st_is_sensitive = False, st_is_readonly = False, st_is_required = True,
           st_requires_restart = True, st_sort_order = 1, st_is_active = True\<rparr>]\<rparr>]"

definition categories_request :: "bool \<Rightarrow> request" where
  "categories_request includeInactive =
     \<lparr>req_method = GET, req_url = baseUrl @ ''/categories'',
      req_params = [(''include_inactive'', JBool includeInactive)],
      req_headers = [], req_body = NoBody\<rparr>"

text \<open>
  \<open>getCategories\<close>: the \<open>catch\<close> logs the error and returns the mock list, so the promise
  is fulfilled on both paths.
\<close>

definition getCategories :: "settings_category list network \<Rightarrow> bool \<Rightarrow> world \<Rightarrow> (axios_error + settings_category list) \<times> world" where
  "getCategories net includeInactive w =
     (case api_request net (categories_request includeInactive) w of
        (Inr resp, w') \<Rightarrow> (Inr (resp_data resp), w')
      | (Inl error, w') \<Rightarrow>
          (Inr getMockCategories, emit (Console ''Failed to fetch settings categories:'') w'))"

text \<open>\<open>updateSetting\<close>; the id of a setting is a whole number.\<close>

definition updateSetting_request :: "int \<Rightarrow> setting_update_request \<Rightarrow> request" where
  "updateSetting_request settingId updateRequest =
     \<lparr>req_method = PUT, req_url = baseUrl @ ''/setting/'' @ show_int settingId,
      req_params = [], req_headers = [], req_body = SettingBody updateRequest\<rparr>"

definition mock_update_response :: "int \<Rightarrow> json" where
  "mock_update_response settingId =
     JObj [(''success'', JBool True),
           (''message'', JStr ''Setting updated successfully (mock)''),
           (''data'', JObj [(''setting_id'', JNum (Fin (of_int settingId))),
                            (''requires_restart'', JBool False)])]"

definition updateSetting :: "json network \<Rightarrow> int \<Rightarrow> setting_update_request \<Rightarrow> world \<Rightarrow> (axios_error + json) \<times> world" where
  "updateSetting net settingId updateRequest w =
     (case api_request net (updateSetting_request settingId updateRequest) w of
        (Inr resp, w') \<Rightarrow> (Inr (resp_data resp), w')
      | (Inl error, w') \<Rightarrow>
          (Inr (mock_update_response settingId),
           emit (Console (''Failed to update setting '' @ show_int settingId @ '':'')) w'))"

text \<open>Reading a field of a JSON object, as \<open>result.success\<close> does.\<close>

fun field :: "string \<Rightarrow> json \<Rightarrow> json option" where
  "field k (JObj kvs) = map_of kvs k"
| "field k j = None"

section \<open>Sample inputs\<close>

definition signed_in :: world where
  "signed_in =
     \<lparr>localStorage = [''auth_token'' \<mapsto> ''t0k3n''],
      default_headers = [''Authorization'' \<mapsto> ''Bearer t0k3n''],
      location_href = ''/cases'',
      trace = []\<rparr>"

definition fails_with :: "error_response option \<Rightarrow> 'd network" where
  "fails_with r = (\<lambda>t q. Inl \<lparr>response = r\<rparr>)"


definition scan_a :: upload_file where
  "scan_a = \<lparr>file_name = ''mri.pdf'', file_size = 48213\<rparr>"

definition scan_b :: upload_file where
  "scan_b = \<lparr>file_name = ''police-report.jpg'', file_size = 901442\<rparr>"

definition always_ok :: "unit network" where
  "always_ok = (\<lambda>t q. Inr \<lparr>resp_status = 200, resp_data = ()\<rparr>)"

definition second_fails :: "unit network" where
  "second_fails =
     (\<lambda>t q. if filter is_request t = [] then Inr \<lparr>resp_status = 200, resp_data = ()\<rparr>
            else Inl \<lparr>response = Some \<lparr>err_status = 500, err_detail = None\<rparr>\<rparr>)"

section \<open>Properties of the HTTP client\<close>

lemma emit_fields [simp]:
  "localStorage (emit ev w) = localStorage w"
  "default_headers (emit ev w) = default_headers w"
  "location_href (emit ev w) = location_href w"
  "trace (emit ev w) = trace w @ [ev]"
  by (simp_all add: emit_def)

lemma toasts_emit:
  "toasts (emit ev w) = toasts w @ (if is_toast ev then [ev] else [])"
  by (simp add: toasts_def)

lemma api_request_rejected:
  "net (trace w) req = Inl error \<Longrightarrow>
   api_request net req w =
     (Inl error, onRejected_effects error (emit (HttpRejected req) (emit (HttpRequest req) w)))"
  by (simp add: api_request_def onRejected_def Let_def)

lemma api_request_fulfilled:
  "net (trace w) req = Inr resp \<Longrightarrow>
   api_request net req w = (Inr resp, emit (HttpFulfilled req) (emit (HttpRequest req) w))"
  by (simp add: api_request_def onFulfilled_def Let_def)

lemma toasts_onRejected:
  "toasts (onRejected_effects error w) =
     (if status_of error = Some 401 then toasts w
      else if (case status_of error of Some s \<Rightarrow> s \<ge> 500 | None \<Rightarrow> False)
        then toasts w @ [ToastError ''Server error. Please try again later.'']
      else case detail_of error of
          Some d \<Rightarrow> if d \<noteq> [] then toasts w @ [ToastError d]
                    else toasts w @ [ToastError ''An unexpected error occurred'']
        | None \<Rightarrow> toasts w @ [ToastError ''An unexpected error occurred''])"
  by (simp add: onRejected_effects_def toasts_emit toasts_def split: option.splits)

lemma trace_onRejected:
  "\<exists>ts. trace (onRejected_effects error w) = trace w @ ts \<and> list_all is_toast ts"
  by (simp add: onRejected_effects_def split: option.splits)


text \<open>
  C1. Whatever the request was, a response with status 401 makes the interceptor remove
  the stored \<open>auth_token\<close>, delete the default \<open>Authorization\<close> header of the client and
  set the location to \<open>/login\<close>; the call still rejects with the error.
\<close>

theorem unauthorized_clears_session:
  assumes "net (trace w) req = Inl error" and "status_of error = Some 401"
  shows "fst (api_request net req w) = Inl error
    \<and> localStorage (snd (api_request net req w)) ''auth_token'' = None
    \<and> default_headers (snd (api_request net req w)) ''Authorization'' = None
    \<and> location_href (snd (api_request net req w)) = ''/login''"
  using assms by (simp add: api_request_rejected onRejected_effects_def)

theorem unauthorized_clears_session_witness:
  "fails_with (Some \<lparr>err_status = 401, err_detail = None\<rparr>) (trace signed_in) (cases_request initial_cases_filters)
      = Inl \<lparr>response = Some \<lparr>err_status = 401, err_detail = None\<rparr>\<rparr>
   \<and> status_of \<lparr>response = Some \<lparr>err_status = 401, err_detail = None\<rparr>\<rparr> = Some 401
   \<and> localStorage signed_in ''auth_token'' = Some ''t0k3n''
   \<and> localStorage (snd (api_request (fails_with (Some \<lparr>err_status = 401, err_detail = None\<rparr>) :: unit network)
         (cases_request initial_cases_filters) signed_in)) ''auth_token'' = None
   \<and> location_href (snd (api_request (fails_with (Some \<lparr>err_status = 401, err_detail = None\<rparr>) :: unit network)
         (cases_request initial_cases_filters) signed_in)) = ''/login''"
  using unauthorized_clears_session
    [of "fails_with (Some \<lparr>err_status = 401, err_detail = None\<rparr>) :: unit network" signed_in
        "cases_request initial_cases_filters" "\<lparr>response = Some \<lparr>err_status = 401, err_detail = None\<rparr>\<rparr>"]
  by (simp add: fails_with_def status_of_def signed_in_def)

lemma unauthorized_shows_no_toast:
  "net (trace w) req = Inl error \<Longrightarrow> status_of error = Some 401 \<Longrightarrow>
   toasts (snd (api_request net req w)) = toasts w"
  by (simp add: api_request_rejected toasts_onRejected toasts_emit)




text \<open>
  C3, as stated: a failure without a response shows the same toast as a 5xx fault. The
  two messages differ.
\<close>

theorem network_failure_toast_counterexample:
  "toasts (snd (api_request (fails_with None :: unit network) (cases_request initial_cases_filters) signed_in))
   \<noteq> toasts (snd (api_request (fails_with (Some \<lparr>err_status = 500, err_detail = None\<rparr>) :: unit network)
        (cases_request initial_cases_filters) signed_in))"
  by (simp add: api_request_rejected fails_with_def toasts_onRejected status_of_def detail_of_def toasts_emit)

text \<open>
  C3, amended: a failure without a response (network error, timeout) shows exactly one
  toast, "An unexpected error occurred"; a 5xx fault shows exactly one toast too, but it
  reads "Server error. Please try again later.", so the two are told apart by their text.
\<close>

theorem network_failure_toast:
  assumes "net (trace w) req = Inl error" and "response error = None"
    and "net5 (trace w) req = Inl error5" and "status_of error5 = Some s" and "500 \<le> s"
  shows "toasts (snd (api_request net req w)) = toasts w @ [ToastError ''An unexpected error occurred'']
    \<and> toasts (snd (api_request net5 req w)) = toasts w @ [ToastError ''Server error. Please try again later.'']
    \<and> toasts (snd (api_request net req w)) \<noteq> toasts (snd (api_request net5 req w))"
proof -
  from assms(2) have none: "status_of error = None" "detail_of error = None"
    by (simp_all add: status_of_def detail_of_def)
  have a: "toasts (snd (api_request net req w)) = toasts w @ [ToastError ''An unexpected error occurred'']"
    using assms(1) none by (simp add: api_request_rejected toasts_onRejected toasts_emit)
  have b: "toasts (snd (api_request net5 req w)) = toasts w @ [ToastError ''Server error. Please try again later.'']"
    using assms(3-5) by (simp add: api_request_rejected toasts_onRejected toasts_emit)
  from a b show ?thesis by simp
qed

theorem network_failure_toast_witness:
  "(fails_with None :: unit network) (trace signed_in) (cases_request initial_cases_filters)
     = Inl \<lparr>response = None\<rparr>
   \<and> response \<lparr>response = None\<rparr> = None
   \<and> (fails_with (Some \<lparr>err_status = 503, err_detail = None\<rparr>) :: unit network)
        (trace signed_in) (cases_request initial_cases_filters)
     = Inl \<lparr>response = Some \<lparr>err_status = 503, err_detail = None\<rparr>\<rparr>
   \<and> status_of \<lparr>response = Some \<lparr>err_status = 503, err_detail = None\<rparr>\<rparr> = Some 503
   \<and> (500::int) \<le> 503
   \<and> toasts (snd (api_request (fails_with None :: unit network) (cases_request initial_cases_filters) signed_in))
       = [ToastError ''An unexpected error occurred'']
   \<and> toasts (snd (api_request (fails_with (Some \<lparr>err_status = 503, err_detail = None\<rparr>) :: unit network)
         (cases_request initial_cases_filters) signed_in))
       = [ToastError ''Server error. Please try again later.'']"
  using network_failure_toast
    [of "fails_with None :: unit network" signed_in "cases_request initial_cases_filters" "\<lparr>response = None\<rparr>"
        "fails_with (Some \<lparr>err_status = 503, err_detail = None\<rparr>) :: unit network"
        "\<lparr>response = Some \<lparr>err_status = 503, err_detail = None\<rparr>\<rparr>" 503]
  by (simp add: fails_with_def status_of_def signed_in_def toasts_def)

section \<open>Properties of the list pages\<close>

lemma handleFilterChange_page: "f_page (handleFilterChange u prev) = 1"
  by (simp add: handleFilterChange_def)

text \<open>
  C4. On the cases screen every filter update leaves the page at 1, and an update that
  changes the search text, the status or the case type gives a query key different from
  the previous one; so do the three controls of the filter bar. On the documents screen
  each of the three controls of the list sets the page to 1 and, when its value changes,
  gives a different query key.
\<close>

theorem filter_change_resets_page_and_key:
  "f_page (handleFilterChange u prev) = 1
   \<and> ((\<exists>v. u_search u = Some v \<and> v \<noteq> f_search prev)
        \<or> (\<exists>v. u_status u = Some v \<and> v \<noteq> f_status prev)
        \<or> (\<exists>v. u_case_type u = Some v \<and> v \<noteq> f_case_type prev)
      \<longrightarrow> cases_query_key (handleFilterChange u prev) \<noteq> cases_query_key prev)
   \<and> f_page (onSearchChange v1 prev) = 1 \<and> f_page (onStatusChange v2 prev) = 1
   \<and> f_page (onCaseTypeChange v3 prev) = 1
   \<and> (v1 \<noteq> f_search prev \<longrightarrow> cases_query_key (onSearchChange v1 prev) \<noteq> cases_query_key prev)
   \<and> (v2 \<noteq> f_status prev \<longrightarrow> cases_query_key (onStatusChange v2 prev) \<noteq> cases_query_key prev)
   \<and> (v3 \<noteq> f_case_type prev \<longrightarrow> cases_query_key (onCaseTypeChange v3 prev) \<noteq> cases_query_key prev)
   \<and> d_page (documentSearchChange v4 filters) = 1 \<and> d_page (documentTypeChange v5 filters) = 1
   \<and> d_page (documentStatusChange v6 filters) = 1
   \<and> (v4 \<noteq> d_search filters \<longrightarrow>
        documents_query_key (documentSearchChange v4 filters) \<noteq> documents_query_key filters)
   \<and> (v5 \<noteq> d_document_type filters \<longrightarrow>
        documents_query_key (documentTypeChange v5 filters) \<noteq> documents_query_key filters)
   \<and> (v6 \<noteq> d_status filters \<longrightarrow>
        documents_query_key (documentStatusChange v6 filters) \<noteq> documents_query_key filters)"
proof -
  have key: "cases_query_key a \<noteq> cases_query_key b"
    if "f_search a \<noteq> f_search b \<or> f_status a \<noteq> f_status b \<or> f_case_type a \<noteq> f_case_type b" for a b
    using that by (auto simp add: cases_query_key_def)
  have dkey: "documents_query_key a \<noteq> documents_query_key b"
    if "d_search a \<noteq> d_search b \<or> d_status a \<noteq> d_status b \<or> d_document_type a \<noteq> d_document_type b" for a b
    using that by (auto simp add: documents_query_key_def)
  have c1: "(\<exists>v. u_search u = Some v \<and> v \<noteq> f_search prev)
        \<or> (\<exists>v. u_status u = Some v \<and> v \<noteq> f_status prev)
        \<or> (\<exists>v. u_case_type u = Some v \<and> v \<noteq> f_case_type prev)
      \<longrightarrow> cases_query_key (handleFilterChange u prev) \<noteq> cases_query_key prev"
    by (intro impI key) (auto simp add: handleFilterChange_def spread_def)
  have c2: "v1 \<noteq> f_search prev \<longrightarrow> cases_query_key (onSearchChange v1 prev) \<noteq> cases_query_key prev"
    by (intro impI key) (simp add: onSearchChange_def handleFilterChange_def spread_def no_update_def)
  have c3: "v2 \<noteq> f_status prev \<longrightarrow> cases_query_key (onStatusChange v2 prev) \<noteq> cases_query_key prev"
    by (intro impI key) (simp add: onStatusChange_def handleFilterChange_def spread_def no_update_def)
  have c4: "v3 \<noteq> f_case_type prev \<longrightarrow> cases_query_key (onCaseTypeChange v3 prev) \<noteq> cases_query_key prev"
    by (intro impI key) (simp add: onCaseTypeChange_def handleFilterChange_def spread_def no_update_def)
  have d1: "v4 \<noteq> d_search filters \<longrightarrow>
        documents_query_key (documentSearchChange v4 filters) \<noteq> documents_query_key filters"
    by (intro impI dkey) (simp add: documentSearchChange_def)
  have d2: "v5 \<noteq> d_document_type filters \<longrightarrow>
        documents_query_key (documentTypeChange v5 filters) \<noteq> documents_query_key filters"
    by (intro impI dkey) (simp add: documentTypeChange_def)
  have d3: "v6 \<noteq> d_status filters \<longrightarrow>
        documents_query_key (documentStatusChange v6 filters) \<noteq> documents_query_key filters"
    by (intro impI dkey) (simp add: documentStatusChange_def)
  have pages: "f_page (onSearchChange v1 prev) = 1" "f_page (onStatusChange v2 prev) = 1"
    "f_page (onCaseTypeChange v3 prev) = 1" "d_page (documentSearchChange v4 filters) = 1"
    "d_page (documentTypeChange v5 filters) = 1" "d_page (documentStatusChange v6 filters) = 1"
    by (simp_all add: onSearchChange_def onStatusChange_def onCaseTypeChange_def handleFilterChange_page
        documentSearchChange_def documentTypeChange_def documentStatusChange_def)
  from c1 c2 c3 c4 d1 d2 d3 pages handleFilterChange_page [of u prev] show ?thesis by blast
qed

theorem filter_change_resets_page_and_key_witness:
  "u_status (no_update\<lparr>u_status := Some ''active''\<rparr>) = Some ''active''
   \<and> ''active'' \<noteq> f_status (initial_cases_filters\<lparr>f_page := 3\<rparr>)
   \<and> ''smith'' \<noteq> f_search (initial_cases_filters\<lparr>f_page := 3\<rparr>)
   \<and> ''personal_injury'' \<noteq> f_case_type (initial_cases_filters\<lparr>f_page := 3\<rparr>)
   \<and> ''mri'' \<noteq> d_search (initial_documents_filters\<lparr>d_page := 2\<rparr>)
   \<and> ''medical_record'' \<noteq> d_document_type (initial_documents_filters\<lparr>d_page := 2\<rparr>)
   \<and> ''pending'' \<noteq> d_status (initial_documents_filters\<lparr>d_page := 2\<rparr>)
   \<and> f_page (handleFilterChange (no_update\<lparr>u_status := Some ''active''\<rparr>) (initial_cases_filters\<lparr>f_page := 3\<rparr>)) = 1
   \<and> cases_query_key (handleFilterChange (no_update\<lparr>u_status := Some ''active''\<rparr>) (initial_cases_filters\<lparr>f_page := 3\<rparr>))
       \<noteq> cases_query_key (initial_cases_filters\<lparr>f_page := 3\<rparr>)
   \<and> cases_query_key (onSearchChange ''smith'' (initial_cases_filters\<lparr>f_page := 3\<rparr>))
       \<noteq> cases_query_key (initial_cases_filters\<lparr>f_page := 3\<rparr>)
   \<and> cases_query_key (onStatusChange ''active'' (initial_cases_filters\<lparr>f_page := 3\<rparr>))
       \<noteq> cases_query_key (initial_cases_filters\<lparr>f_page := 3\<rparr>)
   \<and> cases_query_key (onCaseTypeChange ''personal_injury'' (initial_cases_filters\<lparr>f_page := 3\<rparr>))
       \<noteq> cases_query_key (initial_cases_filters\<lparr>f_page := 3\<rparr>)
   \<and> d_page (documentSearchChange ''mri'' (initial_documents_filters\<lparr>d_page := 2\<rparr>)) = 1
   \<and> documents_query_key (documentSearchChange ''mri'' (initial_documents_filters\<lparr>d_page := 2\<rparr>))
       \<noteq> documents_query_key (initial_documents_filters\<lparr>d_page := 2\<rparr>)
   \<and> documents_query_key (documentTypeChange ''medical_record'' (initial_documents_filters\<lparr>d_page := 2\<rparr>))
       \<noteq> documents_query_key (initial_documents_filters\<lparr>d_page := 2\<rparr>)
   \<and> documents_query_key (documentStatusChange ''pending'' (initial_documents_filters\<lparr>d_page := 2\<rparr>))
       \<noteq> documents_query_key (initial_documents_filters\<lparr>d_page := 2\<rparr>)"
  using filter_change_resets_page_and_key
    [of "no_update\<lparr>u_status := Some ''active''\<rparr>" "initial_cases_filters\<lparr>f_page := 3\<rparr>"
        "''smith''" "''active''" "''personal_injury''"
        "''mri''" "initial_documents_filters\<lparr>d_page := 2\<rparr>" "''medical_record''" "''pending''"]
  by (simp add: no_update_def initial_cases_filters_def initial_documents_filters_def)

section \<open>Properties of the new-case form\<close>

lemma handleSubmit_valid:
  "title formData \<noteq> [] \<Longrightarrow> plaintiff_id formData \<noteq> [] \<Longrightarrow> law_firm_id formData \<noteq> [] \<Longrightarrow>
   handleSubmit net onSuccess formData w = createCaseMutation net onSuccess formData w"
  by (simp add: handleSubmit_def)

lemma createCaseMutation_posts:
  "\<exists>rest. trace (createCaseMutation net None data w) = trace w @ HttpRequest (createCase_request data) # rest"
proof (cases "net (trace w) (createCase_request data)")
  case (Inl error)
  obtain ts where "trace (onRejected_effects error (emit (HttpRejected (createCase_request data))
      (emit (HttpRequest (createCase_request data)) w)))
    = trace (emit (HttpRejected (createCase_request data)) (emit (HttpRequest (createCase_request data)) w)) @ ts"
    using trace_onRejected by blast
  with Inl show ?thesis
    by (simp add: createCaseMutation_def api_request_rejected)
next
  case (Inr resp)
  then show ?thesis by (simp add: createCaseMutation_def api_request_fulfilled)
qed



section \<open>Properties of the document upload\<close>

text \<open>
  The three ways an upload of two or more files can go: the first request is rejected,
  the first is answered and the second rejected, or both are answered.
\<close>

lemma toasts_only:
  "list_all is_toast ts \<Longrightarrow> filter is_request ts = [] \<and> filter is_refetch ts = []"
proof (induction ts)
  case Nil
  then show ?case by simp
next
  case (Cons ev ts)
  then show ?case by (cases ev) simp_all
qed

lemma upload_first_fails:
  assumes "files st = f1 # rest"
    and "net (trace w) (upload_request (caseId st) f1) = Inl e1"
  shows "handleUpload net k st w
      = (st\<lparr>isUploading := False\<rparr>,
         emit (Console ''Upload failed:'')
           (onRejected_effects e1
             (emit (HttpRejected (upload_request (caseId st) f1))
               (emit (HttpRequest (upload_request (caseId st) f1)) w))))"
  using assms by (simp add: handleUpload_def api_request_rejected)

lemma upload_second_fails:
  assumes "files st = f1 # f2 # rest"
    and "net (trace w) (upload_request (caseId st) f1) = Inr r1"
    and "net (trace w @ [HttpRequest (upload_request (caseId st) f1),
                         HttpFulfilled (upload_request (caseId st) f1)])
           (upload_request (caseId st) f2) = Inl e2"
  shows "handleUpload net k st w
      = (st\<lparr>isUploading := False\<rparr>,
         emit (Console ''Upload failed:'')
           (onRejected_effects e2
             (emit (HttpRejected (upload_request (caseId st) f2))
               (emit (HttpRequest (upload_request (caseId st) f2))
                 (emit (HttpFulfilled (upload_request (caseId st) f1))
                   (emit (HttpRequest (upload_request (caseId st) f1)) w))))))"
proof -
  let ?q1 = "upload_request (caseId st) f1" and ?q2 = "upload_request (caseId st) f2"
  let ?w1 = "emit (HttpFulfilled ?q1) (emit (HttpRequest ?q1) w)"
  have s1: "api_request net ?q1 w = (Inr r1, ?w1)"
    using assms(2) by (rule api_request_fulfilled)
  have "net (trace ?w1) ?q2 = Inl e2"
    using assms(3) by simp
  then have s2: "api_request net ?q2 ?w1
      = (Inl e2, onRejected_effects e2 (emit (HttpRejected ?q2) (emit (HttpRequest ?q2) ?w1)))"
    by (rule api_request_rejected)
  have loop: "upload_each net (caseId st) (files st) w
      = (Inl e2, onRejected_effects e2 (emit (HttpRejected ?q2) (emit (HttpRequest ?q2) ?w1)))"
    by (simp add: assms(1) s1 s2)
  show ?thesis
    unfolding handleUpload_def loop by (simp add: assms(1))
qed

lemma upload_both_succeed:
  assumes "files st = [f1, f2]"
    and "net (trace w) (upload_request (caseId st) f1) = Inr r1"
    and "net (trace w @ [HttpRequest (upload_request (caseId st) f1),
                         HttpFulfilled (upload_request (caseId st) f1)])
           (upload_request (caseId st) f2) = Inr r2"
  shows "handleUpload net handleUploadSuccess st w
      = (st\<lparr>files := [], caseId := [], isUploading := False\<rparr>,
         handleUploadSuccess (emit (ToastSuccess ''2 document(s) uploaded successfully'')
           (emit (HttpFulfilled (upload_request (caseId st) f2))
             (emit (HttpRequest (upload_request (caseId st) f2))
               (emit (HttpFulfilled (upload_request (caseId st) f1))
                 (emit (HttpRequest (upload_request (caseId st) f1)) w))))))"
proof -
  let ?q1 = "upload_request (caseId st) f1" and ?q2 = "upload_request (caseId st) f2"
  let ?w1 = "emit (HttpFulfilled ?q1) (emit (HttpRequest ?q1) w)"
  have s1: "api_request net ?q1 w = (Inr r1, ?w1)"
    using assms(2) by (rule api_request_fulfilled)
  have "net (trace ?w1) ?q2 = Inr r2"
    using assms(3) by simp
  then have s2: "api_request net ?q2 ?w1 = (Inr r2, emit (HttpFulfilled ?q2) (emit (HttpRequest ?q2) ?w1))"
    by (rule api_request_fulfilled)
  have loop: "upload_each net (caseId st) (files st) w
      = (Inr (), emit (HttpFulfilled ?q2) (emit (HttpRequest ?q2) ?w1))"
    by (simp add: assms(1) s1 s2)
  have n: "show_nat (length (files st)) = ''2''"
    by (simp add: assms(1))
  show ?thesis
    unfolding handleUpload_def loop n by (simp add: assms(1))
qed

lemma upload_request_form:
  "req_body (upload_request c f)
      = FormBody ((''file'', FileEntry f) # (if c \<noteq> [] then [(''case_id'', TextEntry c)] else []))"
  "req_headers (upload_request c f) = [(''Content-Type'', ''multipart/form-data'')]"
  "req_method (upload_request c f) = POST"
  "req_url (upload_request c f) = ''/documents/upload''"
  by (simp_all add: upload_request_def upload_form_def)

text \<open>
  C6, as stated: with two files selected, exactly two requests are issued. When the
  first upload fails the loop is left and only one request is issued.
\<close>

theorem two_requests_always_counterexample:
  "requests (snd (handleUpload (fails_with None :: unit network) handleUploadSuccess
       \<lparr>files = [scan_a, scan_b], isUploading = False, caseId = ''42''\<rparr> signed_in))
     = [HttpRequest (upload_request ''42'' scan_a)]
   \<and> length (requests (snd (handleUpload (fails_with None :: unit network) handleUploadSuccess
       \<lparr>files = [scan_a, scan_b], isUploading = False, caseId = ''42''\<rparr> signed_in))) \<noteq> 2"
proof -
  have "handleUpload (fails_with None :: unit network) handleUploadSuccess
       \<lparr>files = [scan_a, scan_b], isUploading = False, caseId = ''42''\<rparr> signed_in
     = (\<lparr>files = [scan_a, scan_b], isUploading = False, caseId = ''42''\<rparr>\<lparr>isUploading := False\<rparr>,
        emit (Console ''Upload failed:'')
          (onRejected_effects \<lparr>response = None\<rparr>
            (emit (HttpRejected (upload_request ''42'' scan_a))
              (emit (HttpRequest (upload_request ''42'' scan_a)) signed_in))))"
    using upload_first_fails
      [of "\<lparr>files = [scan_a, scan_b], isUploading = False, caseId = ''42''\<rparr>" scan_a "[scan_b]"
          "fails_with None :: unit network" signed_in "\<lparr>response = None\<rparr>" handleUploadSuccess]
    by (simp add: fails_with_def)
  then show ?thesis
    by (simp add: requests_def onRejected_effects_def status_of_def detail_of_def signed_in_def)
qed

text \<open>
  C6, amended: with two files selected the requests are issued one after the other, each
  a multipart post whose form has the \<open>file\<close> field and, when a case id was entered, the
  \<open>case_id\<close> field. The request for the first file is always issued; when it fails no
  other request is issued. The request for the second file is issued after the first has
  been answered, so two requests are issued whenever the first upload succeeds. When
  both succeed the trace grows by exactly the two requests with their answers, the
  success toast and one refetch of the document list; when either fails the list is not
  refetched and the selected files are kept.
\<close>

theorem upload_two_files:
  assumes "files st = [f1, f2]"
  shows
   "(net1 (trace w) (upload_request (caseId st) f1) = Inl e1 \<longrightarrow>
       requests (snd (handleUpload net1 handleUploadSuccess st w))
         = requests w @ [HttpRequest (upload_request (caseId st) f1)]
     \<and> refetches (snd (handleUpload net1 handleUploadSuccess st w)) = refetches w
     \<and> files (fst (handleUpload net1 handleUploadSuccess st w)) = [f1, f2])
  \<and> (net2 (trace w) (upload_request (caseId st) f1) = Inr r1
      \<and> net2 (trace w @ [HttpRequest (upload_request (caseId st) f1),
                          HttpFulfilled (upload_request (caseId st) f1)])
           (upload_request (caseId st) f2) = Inl e2 \<longrightarrow>
       (\<exists>ts. trace (snd (handleUpload net2 handleUploadSuccess st w))
          = trace w @
            [HttpRequest (upload_request (caseId st) f1), HttpFulfilled (upload_request (caseId st) f1),
             HttpRequest (upload_request (caseId st) f2), HttpRejected (upload_request (caseId st) f2)]
            @ ts @ [Console ''Upload failed:'']
          \<and> list_all is_toast ts)
     \<and> requests (snd (handleUpload net2 handleUploadSuccess st w))
         = requests w @ [HttpRequest (upload_request (caseId st) f1), HttpRequest (upload_request (caseId st) f2)]
     \<and> refetches (snd (handleUpload net2 handleUploadSuccess st w)) = refetches w
     \<and> files (fst (handleUpload net2 handleUploadSuccess st w)) = [f1, f2])
  \<and> (net3 (trace w) (upload_request (caseId st) f1) = Inr r1'
      \<and> net3 (trace w @ [HttpRequest (upload_request (caseId st) f1),
                          HttpFulfilled (upload_request (caseId st) f1)])
           (upload_request (caseId st) f2) = Inr r2' \<longrightarrow>
       trace (snd (handleUpload net3 handleUploadSuccess st w))
         = trace w @
           [HttpRequest (upload_request (caseId st) f1), HttpFulfilled (upload_request (caseId st) f1),
            HttpRequest (upload_request (caseId st) f2), HttpFulfilled (upload_request (caseId st) f2),
            ToastSuccess ''2 document(s) uploaded successfully'', Refetch ''documents'']
     \<and> requests (snd (handleUpload net3 handleUploadSuccess st w))
         = requests w @ [HttpRequest (upload_request (caseId st) f1), HttpRequest (upload_request (caseId st) f2)]
     \<and> refetches (snd (handleUpload net3 handleUploadSuccess st w)) = refetches w @ [Refetch ''documents'']
     \<and> files (fst (handleUpload net3 handleUploadSuccess st w)) = [])
  \<and> req_body (upload_request (caseId st) f1)
       = FormBody ((''file'', FileEntry f1) # (if caseId st \<noteq> [] then [(''case_id'', TextEntry (caseId st))] else []))
  \<and> req_body (upload_request (caseId st) f2)
       = FormBody ((''file'', FileEntry f2) # (if caseId st \<noteq> [] then [(''case_id'', TextEntry (caseId st))] else []))
  \<and> req_headers (upload_request (caseId st) f1) = [(''Content-Type'', ''multipart/form-data'')]
  \<and> req_headers (upload_request (caseId st) f2) = [(''Content-Type'', ''multipart/form-data'')]"
proof -
  let ?q1 = "upload_request (caseId st) f1" and ?q2 = "upload_request (caseId st) f2"
  have first: "requests (snd (handleUpload net1 handleUploadSuccess st w)) = requests w @ [HttpRequest ?q1]
     \<and> refetches (snd (handleUpload net1 handleUploadSuccess st w)) = refetches w
     \<and> files (fst (handleUpload net1 handleUploadSuccess st w)) = [f1, f2]"
    if h: "net1 (trace w) ?q1 = Inl e1"
  proof -
    let ?w1 = "emit (HttpRejected ?q1) (emit (HttpRequest ?q1) w)"
    obtain ts where ts: "trace (onRejected_effects e1 ?w1) = trace ?w1 @ ts" "list_all is_toast ts"
      using trace_onRejected by blast
    from toasts_only [OF ts(2)] have none: "filter is_request ts = []" "filter is_refetch ts = []"
      by simp_all
    show ?thesis
      unfolding upload_first_fails [of st f1 "[f2]" net1 w e1 handleUploadSuccess, OF assms h]
      by (simp add: requests_def refetches_def ts(1) none assms)
  qed
  have second: "(\<exists>ts. trace (snd (handleUpload net2 handleUploadSuccess st w))
          = trace w @ [HttpRequest ?q1, HttpFulfilled ?q1, HttpRequest ?q2, HttpRejected ?q2]
            @ ts @ [Console ''Upload failed:'']
          \<and> list_all is_toast ts)
     \<and> requests (snd (handleUpload net2 handleUploadSuccess st w))
         = requests w @ [HttpRequest ?q1, HttpRequest ?q2]
     \<and> refetches (snd (handleUpload net2 handleUploadSuccess st w)) = refetches w
     \<and> files (fst (handleUpload net2 handleUploadSuccess st w)) = [f1, f2]"
    if h: "net2 (trace w) ?q1 = Inr r1"
      "net2 (trace w @ [HttpRequest ?q1, HttpFulfilled ?q1]) ?q2 = Inl e2"
  proof -
    let ?w2 = "emit (HttpRejected ?q2) (emit (HttpRequest ?q2)
        (emit (HttpFulfilled ?q1) (emit (HttpRequest ?q1) w)))"
    obtain ts where ts: "trace (onRejected_effects e2 ?w2) = trace ?w2 @ ts" "list_all is_toast ts"
      using trace_onRejected by blast
    from toasts_only [OF ts(2)] have none: "filter is_request ts = []" "filter is_refetch ts = []"
      by simp_all
    have tr: "trace (snd (handleUpload net2 handleUploadSuccess st w))
          = trace w @ [HttpRequest ?q1, HttpFulfilled ?q1, HttpRequest ?q2, HttpRejected ?q2]
            @ ts @ [Console ''Upload failed:'']"
      unfolding upload_second_fails [of st f1 f2 "[]" net2 w r1 e2 handleUploadSuccess, OF assms h] by (simp add: ts(1))
    have rest: "requests (snd (handleUpload net2 handleUploadSuccess st w))
         = requests w @ [HttpRequest ?q1, HttpRequest ?q2]
     \<and> refetches (snd (handleUpload net2 handleUploadSuccess st w)) = refetches w
     \<and> files (fst (handleUpload net2 handleUploadSuccess st w)) = [f1, f2]"
      unfolding requests_def refetches_def tr
      by (simp add: none upload_second_fails [of st f1 f2 "[]" net2 w r1 e2 handleUploadSuccess, OF assms h] assms)
    from tr ts(2) rest show ?thesis by blast
  qed
  have third: "trace (snd (handleUpload net3 handleUploadSuccess st w))
         = trace w @ [HttpRequest ?q1, HttpFulfilled ?q1, HttpRequest ?q2, HttpFulfilled ?q2,
            ToastSuccess ''2 document(s) uploaded successfully'', Refetch ''documents'']
     \<and> requests (snd (handleUpload net3 handleUploadSuccess st w))
         = requests w @ [HttpRequest ?q1, HttpRequest ?q2]
     \<and> refetches (snd (handleUpload net3 handleUploadSuccess st w)) = refetches w @ [Refetch ''documents'']
     \<and> files (fst (handleUpload net3 handleUploadSuccess st w)) = []"
    if h: "net3 (trace w) ?q1 = Inr r1'"
      "net3 (trace w @ [HttpRequest ?q1, HttpFulfilled ?q1]) ?q2 = Inr r2'"
    unfolding upload_both_succeed [of st f1 f2 net3 w r1' r2', OF assms h]
    by (simp add: handleUploadSuccess_def requests_def refetches_def)
  from first second third upload_request_form(1,2) [of "caseId st"] show ?thesis
    by blast
qed


theorem upload_two_files_witness:
  "files \<lparr>files = [scan_a, scan_b], isUploading = False, caseId = ''42''\<rparr> = [scan_a, scan_b]
   \<and> (fails_with None :: unit network) (trace signed_in) (upload_request ''42'' scan_a) = Inl \<lparr>response = None\<rparr>
   \<and> second_fails (trace signed_in) (upload_request ''42'' scan_a) = Inr \<lparr>resp_status = 200, resp_data = ()\<rparr>
   \<and> second_fails (trace signed_in @ [HttpRequest (upload_request ''42'' scan_a), HttpFulfilled (upload_request ''42'' scan_a)])
        (upload_request ''42'' scan_b) = Inl \<lparr>response = Some \<lparr>err_status = 500, err_detail = None\<rparr>\<rparr>
   \<and> always_ok (trace signed_in) (upload_request ''42'' scan_a) = Inr \<lparr>resp_status = 200, resp_data = ()\<rparr>
   \<and> always_ok (trace signed_in @ [HttpRequest (upload_request ''42'' scan_a), HttpFulfilled (upload_request ''42'' scan_a)])
        (upload_request ''42'' scan_b) = Inr \<lparr>resp_status = 200, resp_data = ()\<rparr>
   \<and> requests (snd (handleUpload (fails_with None :: unit network) handleUploadSuccess
        \<lparr>files = [scan_a, scan_b], isUploading = False, caseId = ''42''\<rparr> signed_in))
       = [HttpRequest (upload_request ''42'' scan_a)]
   \<and> requests (snd (handleUpload second_fails handleUploadSuccess
        \<lparr>files = [scan_a, scan_b], isUploading = False, caseId = ''42''\<rparr> signed_in))
       = [HttpRequest (upload_request ''42'' scan_a), HttpRequest (upload_request ''42'' scan_b)]
   \<and> refetches (snd (handleUpload second_fails handleUploadSuccess
        \<lparr>files = [scan_a, scan_b], isUploading = False, caseId = ''42''\<rparr> signed_in)) = []
   \<and> trace (snd (handleUpload always_ok handleUploadSuccess
        \<lparr>files = [scan_a, scan_b], isUploading = False, caseId = ''42''\<rparr> signed_in))
       = [HttpRequest (upload_request ''42'' scan_a), HttpFulfilled (upload_request ''42'' scan_a),
          HttpRequest (upload_request ''42'' scan_b), HttpFulfilled (upload_request ''42'' scan_b),
          ToastSuccess ''2 document(s) uploaded successfully'', Refetch ''documents'']
   \<and> refetches (snd (handleUpload always_ok handleUploadSuccess
        \<lparr>files = [scan_a, scan_b], isUploading = False, caseId = ''42''\<rparr> signed_in)) = [Refetch ''documents'']
   \<and> req_body (upload_request ''42'' scan_a) = FormBody [(''file'', FileEntry scan_a), (''case_id'', TextEntry ''42'')]"
  using upload_two_files
    [of "\<lparr>files = [scan_a, scan_b], isUploading = False, caseId = ''42''\<rparr>" scan_a scan_b
        "fails_with None :: unit network" signed_in "\<lparr>response = None\<rparr>"
        second_fails "\<lparr>resp_status = 200, resp_data = ()\<rparr>"
        "\<lparr>response = Some \<lparr>err_status = 500, err_detail = None\<rparr>\<rparr>"
        always_ok "\<lparr>resp_status = 200, resp_data = ()\<rparr>" "\<lparr>resp_status = 200, resp_data = ()\<rparr>"]
  by (simp add: fails_with_def second_fails_def always_ok_def signed_in_def requests_def refetches_def)

section \<open>Properties of the realtime channel\<close>

text \<open>
  C7, as stated: \<open>connect()\<close> of the realtime service never opens a connection. The
  service built on socket.io does, when it has no connected socket.
\<close>

theorem connect_is_noop_counterexample:
  "fst (io_connect None signed_in) \<noteq> None
   \<and> filter is_traffic (trace (snd (io_connect None signed_in))) \<noteq> filter is_traffic (trace signed_in)"
  by (simp add: io_connect_def signed_in_def)

text \<open>
  C7, amended: \<open>connect()\<close> of the service built on the browser's \<open>WebSocket\<close> is a
  no-op for every state of the service and every stored token: the service is unchanged,
  no socket is opened and no request is sent, and storage, headers and location stay as
  they were. \<open>connect()\<close> of the service built on socket.io opens a socket unless one is
  connected already.
\<close>

theorem stub_connect_is_noop:
  "fst (connect svc w) = svc
   \<and> filter is_traffic (trace (snd (connect svc w))) = filter is_traffic (trace w)
   \<and> localStorage (snd (connect svc w)) = localStorage w
   \<and> default_headers (snd (connect svc w)) = default_headers w
   \<and> location_href (snd (connect svc w)) = location_href w
   \<and> snd (io_connect socket w) =
       (if (case socket of Some s \<Rightarrow> sock_connected s | None \<Rightarrow> False) then w
        else emit (SocketOpened ''/'') w)"
  by (simp add: connect_def io_connect_def split: option.splits)

section \<open>Properties of the settings service\<close>

text \<open>
  C8. When the request of \<open>getCategories\<close> fails, whatever the error, the call is
  fulfilled with the mock list, whose categories are \<open>system\<close> and \<open>agents\<close>, each with
  its settings.
\<close>

theorem getCategories_falls_back:
  assumes "net (trace w) (categories_request includeInactive) = Inl error"
  shows "fst (getCategories net includeInactive w) = Inr getMockCategories
    \<and> map cat_name getMockCategories = [''system'', ''agents'']
    \<and> map (\<lambda>c. map st_key (cat_settings c)) getMockCategories
        = [[''log_level'', ''enable_metrics''], [''agent_health_check_interval'']]"
  using assms by (simp add: getCategories_def api_request_rejected getMockCategories_def)

theorem getCategories_falls_back_witness:
  "fails_with None (trace signed_in) (categories_request False) = Inl \<lparr>response = None\<rparr>
   \<and> fst (getCategories (fails_with None) False signed_in) = Inr getMockCategories
   \<and> map cat_name getMockCategories = [''system'', ''agents'']"
  using getCategories_falls_back [of "fails_with None" signed_in False "\<lparr>response = None\<rparr>"]
  by (simp add: fails_with_def)

text \<open>
  C9. \<open>updateSetting\<close> is fulfilled on every path. When the \<open>PUT\<close> fails it returns the
  mock object: \<open>success\<close> is true, \<open>message\<close> is "Setting updated successfully (mock)", and
  \<open>data\<close> holds the id and \<open>requires_restart: false\<close>; a backend that answers with this
  object gives the caller the same value, so the value does not tell the two apart.
\<close>

theorem updateSetting_never_rejects:
  "(\<exists>v. fst (updateSetting net settingId updateRequest w) = Inr v)
   \<and> (net (trace w) (updateSetting_request settingId updateRequest) = Inl error \<longrightarrow>
        fst (updateSetting net settingId updateRequest w) = Inr (mock_update_response settingId)
      \<and> field ''success'' (mock_update_response settingId) = Some (JBool True)
      \<and> field ''message'' (mock_update_response settingId) = Some (JStr ''Setting updated successfully (mock)'')
      \<and> Option.bind (field ''data'' (mock_update_response settingId)) (field ''requires_restart'')
          = Some (JBool False)
      \<and> fst (updateSetting (\<lambda>t q. Inr \<lparr>resp_status = 200, resp_data = mock_update_response settingId\<rparr>)
               settingId updateRequest w)
          = fst (updateSetting net settingId updateRequest w))"
proof -
  have "\<exists>v. fst (updateSetting net settingId updateRequest w) = Inr v"
    by (cases "net (trace w) (updateSetting_request settingId updateRequest)")
      (simp_all add: updateSetting_def api_request_rejected api_request_fulfilled)
  then show ?thesis
    by (simp add: updateSetting_def api_request_rejected api_request_fulfilled mock_update_response_def)
qed

theorem updateSetting_never_rejects_witness:
  "fails_with (Some \<lparr>err_status = 500, err_detail = None\<rparr>) (trace signed_in)
      (updateSetting_request 3 \<lparr>su_value = JNum (Fin 60), change_reason = None\<rparr>)
     = Inl \<lparr>response = Some \<lparr>err_status = 500, err_detail = None\<rparr>\<rparr>
   \<and> fst (updateSetting (fails_with (Some \<lparr>err_status = 500, err_detail = None\<rparr>)) 3
            \<lparr>su_value = JNum (Fin 60), change_reason = None\<rparr> signed_in)
       = Inr (JObj [(''success'', JBool True),
                    (''message'', JStr ''Setting updated successfully (mock)''),
                    (''data'', JObj [(''setting_id'', JNum (Fin 3)), (''requires_restart'', JBool False)])])"
  using updateSetting_never_rejects
    [of "fails_with (Some \<lparr>err_status = 500, err_detail = None\<rparr>)" 3
        "\<lparr>su_value = JNum (Fin 60), change_reason = None\<rparr>" signed_in
        "\<lparr>response = Some \<lparr>err_status = 500, err_detail = None\<rparr>\<rparr>"]
  by (simp add: fails_with_def mock_update_response_def)

section \<open>Properties of rounding to a double\<close>











section \<open>Properties of the amounts of the new-case form\<close>


lemma handleChange_texts:
  "handleChange ''title'' val prev = Some (prev\<lparr>title := val\<rparr>)"
  "handleChange ''description'' val prev = Some (prev\<lparr>description := val\<rparr>)"
  "handleChange ''plaintiff_id'' val prev = Some (prev\<lparr>plaintiff_id := val\<rparr>)"
  "handleChange ''law_firm_id'' val prev = Some (prev\<lparr>law_firm_id := val\<rparr>)"
  "handleChange ''case_type'' val prev = Some (prev\<lparr>case_type := val\<rparr>)"
  "handleChange ''incident_date'' val prev = Some (prev\<lparr>incident_date := val\<rparr>)"
  "handleChange ''incident_location'' val prev = Some (prev\<lparr>incident_location := val\<rparr>)"
  "handleChange ''incident_description'' val prev = Some (prev\<lparr>incident_description := val\<rparr>)"
  "handleChange ''priority'' val prev = Some (prev\<lparr>priority := val\<rparr>)"
  "handleChange ''notes'' val prev = Some (prev\<lparr>notes_text := val\<rparr>)"
  by (simp_all add: handleChange_def set_field_def)





end
